theory Spec2Isabelle
  imports Complex_Main
begin

section \<open>Python built-ins and library calls used by \<open>main.py\<close>\<close>

text \<open>
  File names, extensions, messages, language codes and the bytes of a file are modelled as
  \<^typ>\<open>string\<close>, one \<^typ>\<open>char\<close> per character or byte. The text that the speech model
  returns is in any language: it is a list of Unicode scalar values (type \<open>uchar\<close> below),
  the characters of a \<open>str\<close> decoded from UTF-8. A finite Python float is modelled by the
  rational number it denotes.
\<close>

subsection \<open>Unicode text\<close>

text \<open>
  A scalar value is a code point below \<open>0x110000\<close> outside the surrogate range.
  \<open>code_point\<close> is Python's \<open>ord\<close>; \<open>scalar n\<close> is the character numbered \<open>n\<close> (the
  replacement character \<open>U+FFFD\<close> when \<open>n\<close> numbers none); \<open>utext\<close> reads a literal.
\<close>

typedef uchar = "{n :: nat. n < 0xD800 \<or> (0xE000 \<le> n \<and> n < 0x110000)}"
  by (rule exI [of _ 0]) simp

setup_lifting type_definition_uchar

lift_definition code_point :: "uchar \<Rightarrow> nat" is "\<lambda>n. n" .

lift_definition scalar :: "nat \<Rightarrow> uchar"
  is "\<lambda>n. if n < 0xD800 \<or> (0xE000 \<le> n \<and> n < 0x110000) then n else 0xFFFD"
  by simp

instantiation uchar :: equal
begin

lift_definition equal_uchar :: "uchar \<Rightarrow> uchar \<Rightarrow> bool" is "(=)" .

instance
  by standard (transfer, simp)

end

definition utext :: "string \<Rightarrow> uchar list" where
  "utext s = map (\<lambda>c. scalar (of_char c)) s"

subsection \<open>\<open>str\<close> methods\<close>

text \<open>\<open>s.split(c)\<close> for a one-character separator: never the empty list.\<close>

fun split_on :: "char \<Rightarrow> string \<Rightarrow> string list" where
  "split_on c [] = [[]]"
| "split_on c (x # xs) =
     (if x = c then [] # split_on c xs
      else (case split_on c xs of
              [] \<Rightarrow> [[x]]
            | p # ps \<Rightarrow> (x # p) # ps))"

text \<open>\<open>s.rfind(c)\<close>: the index of the last occurrence of \<open>c\<close>, or \<open>-1\<close>.\<close>

definition rfind :: "char \<Rightarrow> string \<Rightarrow> int" where
  "rfind c s =
     (if c \<in> set s
      then int (length s) - 1 - int (length (takeWhile (\<lambda>x. x \<noteq> c) (rev s)))
      else - 1)"

definition lower_char :: "char \<Rightarrow> char" where
  "lower_char c =
     (let n = (of_char c :: nat) in if 65 \<le> n \<and> n \<le> 90 then char_of (n + 32) else c)"

definition upper_char :: "char \<Rightarrow> char" where
  "upper_char c =
     (let n = (of_char c :: nat) in if 97 \<le> n \<and> n \<le> 122 then char_of (n - 32) else c)"

definition lower :: "string \<Rightarrow> string" where
  "lower s = map lower_char s"

definition upper :: "string \<Rightarrow> string" where
  "upper s = map upper_char s"

text \<open>\<open>sep.join(xs)\<close>.\<close>

fun join :: "'a list \<Rightarrow> 'a list list \<Rightarrow> 'a list" where
  "join sep [] = []"
| "join sep [x] = x"
| "join sep (x # y # ys) = x @ sep @ join sep (y # ys)"

text \<open>
  \<open>str.isspace\<close> on one character, as CPython's \<open>_PyUnicode_IsWhitespace\<close> has it: the
  characters of bidirectional type \<open>WS\<close>, \<open>B\<close> or \<open>S\<close> and those of category \<open>Zs\<close>. They are
  tab, line feed, vertical tab, form feed and carriage return; the separators \<open>U+001C\<close> to
  \<open>U+001F\<close> and the space; next line \<open>U+0085\<close>; the no-break space \<open>U+00A0\<close>; the Ogham
  space mark \<open>U+1680\<close>; the spaces \<open>U+2000\<close> to \<open>U+200A\<close>; the line and paragraph separators
  \<open>U+2028\<close> and \<open>U+2029\<close>; the narrow no-break space \<open>U+202F\<close>; the medium mathematical
  space \<open>U+205F\<close>; the ideographic space \<open>U+3000\<close>.
\<close>

definition isspace :: "uchar \<Rightarrow> bool" where
  "isspace c =
     (let n = code_point c
      in (0x09 \<le> n \<and> n \<le> 0x0D) \<or> (0x1C \<le> n \<and> n \<le> 0x20) \<or> n = 0x85 \<or> n = 0xA0
         \<or> n = 0x1680 \<or> (0x2000 \<le> n \<and> n \<le> 0x200A) \<or> n = 0x2028 \<or> n = 0x2029
         \<or> n = 0x202F \<or> n = 0x205F \<or> n = 0x3000)"

text \<open>
  \<open>s.strip()\<close> with no argument: the characters that are \<open>isspace\<close> are dropped from the
  front up to the first that is not, then from the back.
\<close>

definition strip :: "uchar list \<Rightarrow> uchar list" where
  "strip s = rev (dropWhile isspace (rev (dropWhile isspace s)))"

subsection \<open>\<open>pathlib.Path(p).suffix\<close> on a POSIX host\<close>

text \<open>
  The path is cut at \<open>/\<close>; empty components and \<open>.\<close> components are dropped; \<open>name\<close>
  is the last component left, or the empty string. \<open>suffix\<close> is the part of the name
  from its last dot on, unless that dot is the first or the last character of the name
  (CPython up to 3.13).
\<close>

definition path_name :: "string \<Rightarrow> string" where
  "path_name p =
     (let parts = filter (\<lambda>x. x \<noteq> [] \<and> x \<noteq> ''.'') (split_on CHR ''/'' p)
      in if parts = [] then [] else last parts)"

definition name_suffix :: "string \<Rightarrow> string" where
  "name_suffix name =
     (let i = rfind CHR ''.'' name
      in if 0 < i \<and> i < int (length name) - 1 then drop (nat i) name else [])"

definition suffix_of :: "string \<Rightarrow> string" where
  "suffix_of p = name_suffix (path_name p)"

subsection \<open>\<open>round(x, 2)\<close> and \<open>format(x, '.2f')\<close>\<close>

text \<open>
  Both round the exact value of the float to the nearest multiple of \<open>1/100\<close>, ties to
  the even multiple. \<open>round_hundredths\<close> is that multiple's numerator; \<open>round2\<close> is the
  decimal itself, which the float returned by \<open>round\<close> is the nearest float to.
\<close>

definition round_hundredths :: "rat \<Rightarrow> int" where
  "round_hundredths x =
     (let y = x * 100; f = \<lfloor>y\<rfloor>; d = y - of_int f
      in if d < 1 / 2 then f
         else if 1 / 2 < d then f + 1
         else if even f then f else f + 1)"

definition round2 :: "rat \<Rightarrow> rat" where
  "round2 x = of_int (round_hundredths x) / 100"

fun digits :: "nat \<Rightarrow> string" where
  "digits n = (if n < 10 then [char_of (48 + n)] else digits (n div 10) @ [char_of (48 + n mod 10)])"

text \<open>\<open>format(x, '.2f')\<close> for \<open>x \<ge> 0\<close>.\<close>

definition format_2f :: "rat \<Rightarrow> string" where
  "format_2f x =
     (let h = nat (round_hundredths x)
      in digits (h div 100) @ ''.'' @ digits (h mod 100 div 10) @ digits (h mod 10))"

section \<open>Exceptions, process state and collaborators\<close>

datatype exn =
    HTTPException nat string
  | NameError string
  | UnboundLocalError string
  | AttributeError string string
  | Raised string

text \<open>
  \<open>HTTPException status_code detail\<close> is what the handler raises on purpose.
  \<open>NameError n\<close>, \<open>UnboundLocalError v\<close> and \<open>AttributeError t a\<close> are raised by the
  interpreter for a global name \<open>n\<close> that is not bound, a local variable \<open>v\<close> read before
  its assignment, and an attribute \<open>a\<close> missing on an object of type \<open>t\<close>.
  \<open>Raised m\<close> is any other \<open>Exception\<close> raised by a library call, \<open>m\<close> being \<open>str(e)\<close>.
\<close>

definition quoted :: "string \<Rightarrow> string" where
  "quoted s = CHR 0x27 # s @ [CHR 0x27]"

fun str_of :: "exn \<Rightarrow> string" where
  "str_of (HTTPException s d) = digits s @ '': '' @ d"
| "str_of (NameError n) = ''name '' @ quoted n @ '' is not defined''"
| "str_of (UnboundLocalError v) =
     ''cannot access local variable '' @ quoted v @ '' where it is not associated with a value''"
| "str_of (AttributeError t a) = quoted t @ '' object has no attribute '' @ quoted a"
| "str_of (Raised m) = m"

record torch_module =
  cuda_is_available :: bool

datatype whisper = WhisperModel string string string string

datatype level = INFO | WARNING | ERROR

text \<open>
  The state the program reads and writes: the binding of the global name \<open>torch\<close>
  (\<open>None\<close> when the name is not bound), the global \<open>model\<close>, the files on disk (path to
  content) and the records emitted through \<open>logger\<close>.
\<close>

record world =
  torch :: "torch_module option"
  model :: "whisper option"
  files :: "string \<rightharpoonup> string"
  logger :: "(level \<times> string) list"

record info =
  language :: string
  duration :: rat

text \<open>
  What the collaborators do during one call: whether the \<open>WhisperModel\<close> constructor
  raises; the order in which the interpreter iterates over the set of extensions; the
  temporary directory, the random names \<open>tempfile\<close> tries, and whether it raises; whether
  reading the upload, writing or closing the scratch file raises; what
  \<open>model.transcribe\<close> does on the staged bytes (it raises, or returns the segment
  generator, which raises when drained or yields the segment texts, and the summary);
  whether \<open>os.unlink\<close> raises.
\<close>

record env =
  construct_error :: "exn option"
  iteration_order :: "string list"
  tempdir :: string
  candidates :: "string list"
  mkstemp_error :: "exn option"
  read_error :: "exn option"
  write_error :: "exn option"
  close_error :: "exn option"
  transcribe_result :: "string option \<Rightarrow> exn + (exn + uchar list list) \<times> info"
  unlink_error :: "exn option"

definition emit :: "level \<Rightarrow> string \<Rightarrow> world \<Rightarrow> world" where
  "emit lvl msg w = w\<lparr>logger := logger w @ [(lvl, msg)]\<rparr>"

text \<open>
  The state after the module's top level has run: lines 6 to 15 import \<open>os\<close>, \<open>logging\<close>,
  \<open>tempfile\<close>, \<open>Path\<close>, \<open>asynccontextmanager\<close>, the FastAPI names, \<open>WhisperModel\<close> and
  \<open>uvicorn\<close>, and nothing binds \<open>torch\<close>; line 25 sets \<open>model = None\<close>.
\<close>

definition module_state :: "(string \<rightharpoonup> string) \<Rightarrow> world" where
  "module_state fs = \<lparr>torch = None, model = None, files = fs, logger = []\<rparr>"

section \<open>Configuration\<close>

definition MAX_FILE_SIZE :: nat where
  "MAX_FILE_SIZE = 100 * 1024 * 1024"

definition ALLOWED_EXTENSIONS :: "string set" where
  "ALLOWED_EXTENSIONS = {''.wav'', ''.mp3'', ''.m4a'', ''.flac'', ''.ogg'', ''.webm''}"

definition MODEL_SIZE :: string where
  "MODEL_SIZE = ''large-v3''"

section \<open>Model loader\<close>

text \<open>\<open>torch.cuda.is_available()\<close>: the global name is looked up first.\<close>

definition torch_cuda_is_available :: "world \<Rightarrow> exn + bool" where
  "torch_cuda_is_available w =
     (case torch w of
        None \<Rightarrow> Inl (NameError ''torch'')
      | Some t \<Rightarrow> Inr (cuda_is_available t))"

definition load_model :: "env \<Rightarrow> world \<Rightarrow> (exn + unit) \<times> world" where
  "load_model e w =
     (case torch_cuda_is_available w of
        Inl x \<Rightarrow> (Inl x, w)
      | Inr available \<Rightarrow>
          (let device = (if available then ''cuda'' else ''cpu'');
               compute_type = (if device = ''cuda'' then ''float16'' else ''int8'');
               w1 = emit INFO (''Loading Whisper model: '' @ MODEL_SIZE) w;
               w2 = emit INFO (''Device: '' @ upper device) w1;
               w3 = emit INFO (''Compute type: '' @ compute_type) w2
           in case construct_error e of
                None \<Rightarrow>
                  (Inr (),
                   emit INFO ''Model loaded successfully''
                     (w3\<lparr>model := Some (WhisperModel MODEL_SIZE device compute_type ''./models'')\<rparr>))
              | Some x \<Rightarrow> (Inl x, emit ERROR (''Failed to load model: '' @ str_of x) w3)))"

text \<open>
  \<open>lifespan\<close> up to its \<open>yield\<close>. The server runs it before it accepts a request: when it
  raises, startup has failed and the process exits; when it reaches \<open>yield\<close>, the
  application serves.
\<close>

datatype phase = Serving | StartupFailed exn

definition lifespan :: "env \<Rightarrow> world \<Rightarrow> phase \<times> world" where
  "lifespan e w =
     (case load_model e w of
        (Inl x, w') \<Rightarrow> (StartupFailed x, w')
      | (Inr _, w') \<Rightarrow> (Serving, w'))"

section \<open>Health endpoint\<close>

record status_body =
  status :: string
  model_name :: string
  device :: string

definition root :: "world \<Rightarrow> exn + status_body" where
  "root w =
     (case torch_cuda_is_available w of
        Inl x \<Rightarrow> Inl x
      | Inr available \<Rightarrow>
          Inr \<lparr>status = ''running'', model_name = MODEL_SIZE,
               device = (if available then ''cuda'' else ''cpu'')\<rparr>)"

text \<open>
  What the framework sends for a handler's outcome: 200 with the returned body, the
  status code of an \<open>HTTPException\<close> with its detail, and for any other exception the
  bare 500 of its error middleware.
\<close>

datatype 'a reply = Body 'a | Detail nat string | InternalServerError

fun reply_of :: "exn + 'a \<Rightarrow> 'a reply" where
  "reply_of (Inr b) = Body b"
| "reply_of (Inl (HTTPException s d)) = Detail s d"
| "reply_of (Inl _) = InternalServerError"

fun status_code :: "'a reply \<Rightarrow> nat" where
  "status_code (Body _) = 200"
| "status_code (Detail s _) = s"
| "status_code InternalServerError = 500"

section \<open>Transcription handler\<close>

record upload =
  filename :: string
  content :: string

record response =
  transcription :: "uchar list"
  language_detected :: string
  duration_seconds :: rat

text \<open>
  \<open>tempfile.NamedTemporaryFile(delete=False, suffix=file_ext)\<close>: the first candidate
  path that no file has yet is created, exclusively; with no candidate left the call
  raises \<open>FileExistsError\<close>. The result is the name of the file.
\<close>

definition NamedTemporaryFile :: "env \<Rightarrow> (string \<rightharpoonup> string) \<Rightarrow> string \<Rightarrow> exn + string" where
  "NamedTemporaryFile e fs suffix =
     (case mkstemp_error e of
        Some x \<Rightarrow> Inl x
      | None \<Rightarrow>
          (case find (\<lambda>p. fs p = None)
                  (map (\<lambda>n. tempdir e @ ''/tmp'' @ n @ suffix) (candidates e)) of
             None \<Rightarrow> Inl (Raised ''[Errno 17] No usable temporary file name found'')
           | Some p \<Rightarrow> Inr p))"

text \<open>The local variables the \<open>finally\<close> block reads; \<open>None\<close> is "not assigned yet" for
  \<open>temp_path\<close> and the value \<open>None\<close> of line 114 for \<open>temp_file\<close>.\<close>

record locals =
  temp_file :: "string option"
  temp_path :: "string option"

text \<open>Leaving the \<open>with\<close> block on an exception closes the file, which may raise in turn.\<close>

definition leave_with :: "env \<Rightarrow> exn \<Rightarrow> exn" where
  "leave_with e x = (case close_error e of None \<Rightarrow> x | Some y \<Rightarrow> y)"

text \<open>Lines 118 to 121: the \<open>with\<close> block.\<close>

definition staging :: "env \<Rightarrow> upload \<Rightarrow> string \<Rightarrow> world \<Rightarrow> (exn + string) \<times> locals \<times> world" where
  "staging e file file_ext w =
     (case NamedTemporaryFile e (files w) file_ext of
        Inl x \<Rightarrow> (Inl x, \<lparr>temp_file = None, temp_path = None\<rparr>, w)
      | Inr name \<Rightarrow>
          (let w1 = w\<lparr>files := (files w)(name \<mapsto> [])\<rparr>
           in case read_error e of
                Some x \<Rightarrow> (Inl (leave_with e x), \<lparr>temp_file = Some name, temp_path = None\<rparr>, w1)
              | None \<Rightarrow>
                  (case write_error e of
                     Some x \<Rightarrow>
                       (Inl (leave_with e x), \<lparr>temp_file = Some name, temp_path = None\<rparr>, w1)
                   | None \<Rightarrow>
                       (let w2 = w1\<lparr>files := (files w1)(name \<mapsto> content file)\<rparr>;
                            l = \<lparr>temp_file = Some name, temp_path = Some name\<rparr>
                        in case close_error e of
                             Some x \<Rightarrow> (Inl x, l, w2)
                           | None \<Rightarrow> (Inr name, l, w2)))))"

text \<open>Lines 123 to 142: the call of the model, the aggregation and the response.\<close>

definition inference :: "env \<Rightarrow> upload \<Rightarrow> string \<Rightarrow> world \<Rightarrow> (exn + response) \<times> world" where
  "inference e file path w =
     (let file_size = length (content file);
          w1 = emit INFO (''Processing file: '' @ filename file @ '' (''
                 @ format_2f (of_nat file_size / 1024) @ '' KB)'') w
      in case model w1 of
           None \<Rightarrow> (Inl (AttributeError ''NoneType'' ''transcribe''), w1)
         | Some m \<Rightarrow>
             (case transcribe_result e (files w1 path) of
                Inl x \<Rightarrow> (Inl x, w1)
              | Inr (segments, info) \<Rightarrow>
                  (case segments of
                     Inl x \<Rightarrow> (Inl x, w1)
                   | Inr texts \<Rightarrow>
                       (let transcription = join (utext '' '') texts;
                            w2 = emit INFO (''Transcription completed. Language: '' @ language info) w1
                        in (Inr \<lparr>transcription = strip transcription,
                                 language_detected = language info,
                                 duration_seconds = round2 (duration info)\<rparr>, w2)))))"

text \<open>Lines 144 to 146: \<open>except Exception as e\<close>.\<close>

definition on_exception :: "exn \<Rightarrow> world \<Rightarrow> (exn + response) \<times> world" where
  "on_exception x w =
     (Inl (HTTPException 500 (''Transcription failed: '' @ str_of x)),
      emit ERROR (''Transcription error: '' @ str_of x) w)"

text \<open>Lines 148 to 154: the \<open>finally\<close> block, given the outcome it was entered with.\<close>

definition cleanup :: "env \<Rightarrow> locals \<Rightarrow> (exn + response) \<times> world \<Rightarrow> (exn + response) \<times> world" where
  "cleanup e l rw =
     (case rw of (r, w) \<Rightarrow>
        (case temp_file l of
           None \<Rightarrow> (r, w)
         | Some f \<Rightarrow>
             (case temp_path l of
                None \<Rightarrow> (Inl (UnboundLocalError ''temp_path''), w)
              | Some p \<Rightarrow>
                  (if files w p \<noteq> None
                   then (case unlink_error e of
                           None \<Rightarrow> (r, w\<lparr>files := (files w)(p := None)\<rparr>)
                         | Some x \<Rightarrow>
                             (r, emit WARNING (''Failed to delete temp file: '' @ str_of x) w))
                   else (r, w)))))"

definition transcribe_audio :: "env \<Rightarrow> upload \<Rightarrow> world \<Rightarrow> (exn + response) \<times> world" where
  "transcribe_audio e file w =
     (let file_ext = lower (suffix_of (filename file))
      in if file_ext \<notin> ALLOWED_EXTENSIONS
         then (Inl (HTTPException 400
                 (''Invalid file type. Allowed: '' @ join '', '' (iteration_order e))), w)
         else
           (let file_size = length (content file)
            in if file_size > MAX_FILE_SIZE
               then (Inl (HTTPException 400 ''File too large. Max size: 100.0MB''), w)
               else
                 (case staging e file file_ext w of
                    (Inl x, l, w1) \<Rightarrow> cleanup e l (on_exception x w1)
                  | (Inr path, l, w1) \<Rightarrow>
                      (case inference e file path w1 of
                         (Inl x, w2) \<Rightarrow> cleanup e l (on_exception x w2)
                       | (Inr r, w2) \<Rightarrow> cleanup e l (Inr r, w2)))))"

text \<open>
  The server hands a request to a handler only while the application serves.
\<close>

definition accept :: "phase \<Rightarrow> env \<Rightarrow> upload \<Rightarrow> world \<Rightarrow> ((exn + response) \<times> world) option" where
  "accept ph e file w = (case ph of Serving \<Rightarrow> Some (transcribe_audio e file w) | StartupFailed x \<Rightarrow> None)"

section \<open>Example inputs\<close>

text \<open>
  A model stub that yields the segments \<open>Hello\<close> and \<open>world\<close>, language \<open>en\<close> and the
  float \<open>3.456\<close> (exactly \<open>7782220156096217 / 2 ^ 51\<close>) as duration; every other
  collaborator succeeds.
\<close>

definition stub_env :: env where
  "stub_env =
     \<lparr>construct_error = None,
      iteration_order = [''.wav'', ''.mp3'', ''.m4a'', ''.flac'', ''.ogg'', ''.webm''],
      tempdir = ''/tmp'',
      candidates = [''k3x9q2ab''],
      mkstemp_error = None,
      read_error = None,
      write_error = None,
      close_error = None,
      transcribe_result =
        (\<lambda>staged. Inr (Inr [utext ''Hello'', utext ''world''],
                        \<lparr>language = ''en'', duration = 7782220156096217 / 2251799813685248\<rparr>)),
      unlink_error = None\<rparr>"





text \<open>The module's state with the stub in the global \<open>model\<close>, and with \<open>torch\<close> bound.\<close>

definition stub_world :: world where
  "stub_world =
     (module_state Map.empty)\<lparr>model := Some (WhisperModel ''large-v3'' ''cpu'' ''int8'' ''./models'')\<rparr>"

definition torch_world :: world where
  "torch_world = (module_state Map.empty)\<lparr>torch := Some \<lparr>cuda_is_available = False\<rparr>\<rparr>"

definition clip :: upload where
  "clip = \<lparr>filename = ''clip.WAV'', content = ''RIFF''\<rparr>"

definition memo :: upload where
  "memo = \<lparr>filename = ''notes.TXT'', content = ''hello''\<rparr>"

definition dotfile :: upload where
  "dotfile = \<lparr>filename = ''.wav'', content = ''RIFF''\<rparr>"

definition oversize :: upload where
  "oversize = \<lparr>filename = ''long.wav'', content = replicate 104857601 CHR ''x''\<rparr>"

definition no_space :: exn where
  "no_space = Raised ''[Errno 28] No space left on device''"

definition scratch_path :: string where
  "scratch_path = ''/tmp/tmpk3x9q2ab.wav''"

section \<open>Properties of the suffix\<close>

lemma split_on_not_Nil: "split_on c s \<noteq> []"
  by (induction s) (auto split: list.splits)

lemma split_on_subset: "x \<in> set (split_on c s) \<Longrightarrow> set x \<subseteq> set s"
proof (induction s arbitrary: x)
  case Nil
  then show ?case by simp
next
  case (Cons a s)
  obtain q qs where q: "split_on c s = q # qs"
    using split_on_not_Nil [of c s] by (cases "split_on c s") auto
  show ?case
  proof (cases "a = c")
    case True
    with Cons.prems have "x = [] \<or> x \<in> set (split_on c s)" by auto
    then show ?thesis using Cons.IH by auto
  next
    case False
    with Cons.prems q have "x = a # q \<or> x \<in> set qs" by auto
    moreover have "set q \<subseteq> set s" using Cons.IH [of q] q by simp
    moreover have "x \<in> set qs \<Longrightarrow> set x \<subseteq> set s" using Cons.IH [of x] q by simp
    ultimately show ?thesis by auto
  qed
qed

lemma name_suffix_no_dot: "CHR ''.'' \<notin> set n \<Longrightarrow> name_suffix n = []"
  by (simp add: name_suffix_def rfind_def)

lemma name_suffix_leading_dot:
  assumes "CHR ''.'' \<notin> set t"
  shows "name_suffix (CHR ''.'' # t) = []"
proof -
  have "takeWhile (\<lambda>x. x \<noteq> CHR ''.'') (rev t @ [CHR ''.''])
          = rev t @ takeWhile (\<lambda>x. x \<noteq> CHR ''.'') [CHR ''.'']"
    by (rule takeWhile_append2) (use assms in auto)
  then have "length (takeWhile (\<lambda>x. x \<noteq> CHR ''.'') (rev t @ [CHR ''.''])) = length t"
    by simp
  then have "rfind CHR ''.'' (CHR ''.'' # t) = 0"
    by (simp add: rfind_def)
  then show ?thesis by (simp add: name_suffix_def)
qed

lemma path_name_cases: "path_name p = [] \<or> path_name p \<in> set (split_on CHR ''/'' p)"
proof -
  let ?parts = "filter (\<lambda>x. x \<noteq> [] \<and> x \<noteq> ''.'') (split_on CHR ''/'' p)"
  show ?thesis
  proof (cases "?parts = []")
    case True
    then show ?thesis by (simp add: path_name_def)
  next
    case False
    then have "last ?parts \<in> set ?parts" by (rule last_in_set)
    then have "last ?parts \<in> set (split_on CHR ''/'' p)" by simp
    with False show ?thesis by (simp add: path_name_def)
  qed
qed

lemma suffix_of_no_dot:
  assumes "CHR ''.'' \<notin> set p"
  shows "suffix_of p = []"
proof -
  from path_name_cases [of p] have "CHR ''.'' \<notin> set (path_name p)"
    using split_on_subset [of "path_name p" "CHR ''/''" p] assms by auto
  then show ?thesis by (simp add: suffix_of_def name_suffix_no_dot)
qed

lemma suffix_of_leading_dot:
  assumes "CHR ''.'' \<notin> set s"
  shows "suffix_of (CHR ''.'' # s) = []"
proof -
  obtain q qs where q: "split_on CHR ''/'' s = q # qs"
    using split_on_not_Nil [of "CHR ''/''" s] by (cases "split_on CHR ''/'' s") auto
  have parts: "split_on CHR ''/'' (CHR ''.'' # s) = (CHR ''.'' # q) # qs"
    using q by simp
  have dq: "CHR ''.'' \<notin> set q"
    using split_on_subset [of q "CHR ''/''" s] q assms by auto
  have dqs: "\<And>x. x \<in> set qs \<Longrightarrow> CHR ''.'' \<notin> set x"
    using split_on_subset [of _ "CHR ''/''" s] q assms by auto
  from path_name_cases [of "CHR ''.'' # s"] parts
  consider "path_name (CHR ''.'' # s) = []" | "path_name (CHR ''.'' # s) = CHR ''.'' # q"
    | "path_name (CHR ''.'' # s) \<in> set qs" by auto
  then show ?thesis
  proof cases
    case 1
    then show ?thesis by (simp add: suffix_of_def name_suffix_def rfind_def)
  next
    case 2
    then show ?thesis by (simp add: suffix_of_def name_suffix_leading_dot dq)
  next
    case 3
    then show ?thesis by (simp add: suffix_of_def name_suffix_no_dot dqs)
  qed
qed

lemma empty_not_allowed: "[] \<notin> ALLOWED_EXTENSIONS"
  by (simp add: ALLOWED_EXTENSIONS_def)

text \<open>
  Claim C3. An upload whose filename's extension, lower-cased, is not one of the
  allowed extensions is answered with \<open>HTTPException 400\<close> (invalid file type), and
  nothing else happens: the state is unchanged, so no scratch file is created, nothing is
  logged, the upload is not read and the model is not called.
\<close>

theorem invalid_extension_rejected:
  assumes "lower (suffix_of (filename file)) \<notin> ALLOWED_EXTENSIONS"
  shows "transcribe_audio e file w =
           (Inl (HTTPException 400
              (''Invalid file type. Allowed: '' @ join '', '' (iteration_order e))), w)"
  using assms by (simp add: transcribe_audio_def)

text \<open>
  Claim C10. A filename with no extension at all (no dot, the empty name, or a name whose
  only dot is its first character, such as \<open>.wav\<close>) is rejected with
  \<open>HTTPException 400\<close> (invalid file type) and the state is unchanged.
\<close>

theorem no_extension_rejected:
  assumes "CHR ''.'' \<notin> set (filename file) \<or> filename file = []
           \<or> (\<exists>s. filename file = CHR ''.'' # s \<and> CHR ''.'' \<notin> set s)"
  shows "transcribe_audio e file w =
           (Inl (HTTPException 400
              (''Invalid file type. Allowed: '' @ join '', '' (iteration_order e))), w)"
proof -
  from assms have "suffix_of (filename file) = []"
    by (auto simp: suffix_of_no_dot suffix_of_leading_dot)
  then have "lower (suffix_of (filename file)) \<notin> ALLOWED_EXTENSIONS"
    by (simp add: lower_def empty_not_allowed)
  then show ?thesis by (simp add: transcribe_audio_def)
qed

text \<open>
  Claim C4. An upload of more than 100 MiB is answered with status 400 whatever its
  extension, and the state is unchanged, so no scratch file is created; when the extension
  is allowed, the answer is the "file too large" exception.
\<close>

theorem oversize_rejected:
  assumes "MAX_FILE_SIZE < length (content file)"
  shows "snd (transcribe_audio e file w) = w
       \<and> status_code (reply_of (fst (transcribe_audio e file w))) = 400
       \<and> (lower (suffix_of (filename file)) \<in> ALLOWED_EXTENSIONS \<longrightarrow>
           fst (transcribe_audio e file w)
             = Inl (HTTPException 400 ''File too large. Max size: 100.0MB''))"
  using assms by (simp add: transcribe_audio_def Let_def)


text \<open>Witness for C3.\<close>

theorem invalid_extension_rejected_witness:
  "lower (suffix_of (filename memo)) \<notin> ALLOWED_EXTENSIONS
   \<and> transcribe_audio stub_env memo stub_world =
       (Inl (HTTPException 400
          ''Invalid file type. Allowed: .wav, .mp3, .m4a, .flac, .ogg, .webm''), stub_world)"
proof -
  have ext: "lower (suffix_of ''notes.TXT'') = ''.txt''"
    by code_simp
  have h: "lower (suffix_of (filename memo)) \<notin> ALLOWED_EXTENSIONS"
    by (simp add: memo_def ext ALLOWED_EXTENSIONS_def)
  show ?thesis
    using h invalid_extension_rejected [OF h, of stub_env stub_world]
    by (simp add: stub_env_def)
qed

text \<open>Witness for C10.\<close>

theorem no_extension_rejected_witness:
  "(\<exists>s. filename dotfile = CHR ''.'' # s \<and> CHR ''.'' \<notin> set s)
   \<and> transcribe_audio stub_env dotfile stub_world =
       (Inl (HTTPException 400
          ''Invalid file type. Allowed: .wav, .mp3, .m4a, .flac, .ogg, .webm''), stub_world)"
proof -
  have h: "\<exists>s. filename dotfile = CHR ''.'' # s \<and> CHR ''.'' \<notin> set s"
    by (simp add: dotfile_def)
  then have "CHR ''.'' \<notin> set (filename dotfile) \<or> filename dotfile = []
       \<or> (\<exists>s. filename dotfile = CHR ''.'' # s \<and> CHR ''.'' \<notin> set s)"
    by blast
  from no_extension_rejected [OF this, of stub_env stub_world] h
  show ?thesis by (simp add: stub_env_def)
qed

text \<open>Witness for C4.\<close>

theorem oversize_rejected_witness:
  "MAX_FILE_SIZE < length (content oversize)
   \<and> lower (suffix_of (filename oversize)) \<in> ALLOWED_EXTENSIONS
   \<and> transcribe_audio stub_env oversize stub_world =
       (Inl (HTTPException 400 ''File too large. Max size: 100.0MB''), stub_world)"
proof -
  have h: "MAX_FILE_SIZE < length (content oversize)"
    by (simp add: oversize_def MAX_FILE_SIZE_def)
  have ext: "lower (suffix_of ''long.wav'') = ''.wav''"
    by code_simp
  have v: "lower (suffix_of (filename oversize)) \<in> ALLOWED_EXTENSIONS"
    by (simp add: oversize_def ext ALLOWED_EXTENSIONS_def)
  from oversize_rejected [OF h, of stub_env stub_world] v
  have "snd (transcribe_audio stub_env oversize stub_world) = stub_world"
    and "fst (transcribe_audio stub_env oversize stub_world)
           = Inl (HTTPException 400 ''File too large. Max size: 100.0MB'')"
    by simp_all
  then have "transcribe_audio stub_env oversize stub_world =
       (Inl (HTTPException 400 ''File too large. Max size: 100.0MB''), stub_world)"
    by (simp add: prod_eq_iff)
  with h v show ?thesis by simp
qed

section \<open>The successful path\<close>

lemma NamedTemporaryFile_fresh:
  assumes "NamedTemporaryFile e fs sfx = Inr p"
  shows "fs p = None"
proof -
  from assms obtain q where
    "find (\<lambda>p. fs p = None) (map (\<lambda>n. tempdir e @ ''/tmp'' @ n @ sfx) (candidates e)) = Some q"
    and "q = p"
    by (auto simp: NamedTemporaryFile_def split: option.splits)
  then show ?thesis by (auto simp: find_Some_iff)
qed








lemma code_point_scalar:
  "code_point (scalar n) = (if n < 0xD800 \<or> (0xE000 \<le> n \<and> n < 0x110000) then n else 0xFFFD)"
  by transfer simp








lemma transcribe_audio_success:
  assumes ext: "lower (suffix_of (filename file)) \<in> ALLOWED_EXTENSIONS"
    and size: "length (content file) \<le> MAX_FILE_SIZE"
    and m: "model w = Some m"
    and tmp: "NamedTemporaryFile e (files w) (lower (suffix_of (filename file))) = Inr p"
    and ok: "read_error e = None" "write_error e = None" "close_error e = None"
    and tr: "transcribe_result e (Some (content file)) = Inr (Inr texts, i)"
  shows "fst (transcribe_audio e file w) =
           Inr \<lparr>transcription = strip (join (utext '' '') texts), language_detected = language i,
                duration_seconds = round2 (duration i)\<rparr>"
    and "files (snd (transcribe_audio e file w)) =
           (if unlink_error e = None then files w else (files w)(p \<mapsto> content file))"
    and "model (snd (transcribe_audio e file w)) = model w"
    and "torch (snd (transcribe_audio e file w)) = torch w"
proof -
  let ?ext = "lower (suffix_of (filename file))"
  let ?l = "\<lparr>temp_file = Some p, temp_path = Some p\<rparr>"
  let ?w2 = "w\<lparr>files := (files w)(p \<mapsto> content file)\<rparr>"
  let ?r = "\<lparr>transcription = strip (join (utext '' '') texts), language_detected = language i,
             duration_seconds = round2 (duration i)\<rparr>"
  have fresh: "files w p = None"
    using tmp by (rule NamedTemporaryFile_fresh)
  have st: "staging e file ?ext w = (Inr p, ?l, ?w2)"
    using tmp ok by (simp add: staging_def Let_def)
  obtain w4 where inf: "inference e file p ?w2 = (Inr ?r, w4)"
    and w4: "files w4 = files ?w2" "model w4 = model w" "torch w4 = torch w"
    using m tr by (simp add: inference_def Let_def emit_def)
  have run: "transcribe_audio e file w = cleanup e ?l (Inr ?r, w4)"
    using ext size st inf by (simp add: transcribe_audio_def Let_def)
  have ex: "files w4 p \<noteq> None"
    using w4 by simp
  show "fst (transcribe_audio e file w) = Inr ?r"
    using ex by (cases "unlink_error e") (simp_all add: run cleanup_def)
  show "files (snd (transcribe_audio e file w)) =
           (if unlink_error e = None then files w else (files w)(p \<mapsto> content file))"
    using ex w4 fresh by (cases "unlink_error e") (auto simp: run cleanup_def emit_def)
  show "model (snd (transcribe_audio e file w)) = model w"
    using ex w4 by (cases "unlink_error e") (simp_all add: run cleanup_def emit_def)
  show "torch (snd (transcribe_audio e file w)) = torch w"
    using ex w4 by (cases "unlink_error e") (simp_all add: run cleanup_def emit_def)
qed


lemma stub_numbers:
  "lower (suffix_of ''clip.WAV'') = ''.wav''"
  "round2 (7782220156096217 / 2251799813685248) = 346 / 100"
  "round2 (1131529406376837 / 1125899906842624) = 1"
  by code_simp+

lemma stub_texts:
  "strip (utext ''Hello world'') = utext ''Hello world''"
  "strip (utext ''Hello'' @ utext '' '' @ utext ''world'') = utext ''Hello world''"
  "strip (join (utext '' '') [utext ''Hello'', utext ''world'']) = utext ''Hello world''"
  by (simp_all add: strip_def isspace_def utext_def code_point_scalar)

lemmas stub_facts = stub_numbers(1) stub_texts(1) stub_numbers(2) stub_texts(2) stub_texts(3)



lemma clip_valid:
  "lower (suffix_of (filename clip)) = ''.wav''"
  "lower (suffix_of (filename clip)) \<in> ALLOWED_EXTENSIONS"
  "length (content clip) \<le> MAX_FILE_SIZE"
  by (simp_all add: clip_def stub_facts ALLOWED_EXTENSIONS_def MAX_FILE_SIZE_def)

lemma stub_tmp: "NamedTemporaryFile stub_env Map.empty ''.wav'' = Inr scratch_path"
  by (simp add: NamedTemporaryFile_def stub_env_def scratch_path_def)

lemma stub_world_fields:
  "files stub_world = Map.empty"
  "model stub_world = Some (WhisperModel ''large-v3'' ''cpu'' ''int8'' ''./models'')"
  "torch stub_world = None"
  by (simp_all add: stub_world_def module_state_def)


section \<open>Startup and the health endpoint\<close>

lemma module_state_unbound: "torch_cuda_is_available (module_state fs) = Inl (NameError ''torch'')"
  by (simp add: torch_cuda_is_available_def module_state_def)

text \<open>
  Claim C6 (the code departs from it). \<open>main.py\<close> never imports \<open>torch\<close>, so in the module's
  state every call of \<open>root\<close> raises \<open>NameError\<close> when it evaluates
  \<open>torch.cuda.is_available()\<close>; the framework answers 500, never 200 with the status body.
\<close>

theorem root_raises_NameError:
  "root (module_state fs) = Inl (NameError ''torch'')
   \<and> reply_of (root (module_state fs)) = InternalServerError
   \<and> status_code (reply_of (root (module_state fs))) = 500"
  by (simp add: root_def module_state_unbound)

text \<open>
  Claim C7 (the code departs from it). In the module's state \<open>load_model\<close> raises
  \<open>NameError\<close> at line 37, before a device or a compute type is chosen and before the
  constructor is called: no model is stored and startup fails, with or without an
  accelerator.
\<close>

theorem load_model_raises_NameError:
  "load_model e (module_state fs) = (Inl (NameError ''torch''), module_state fs)
   \<and> model (snd (load_model e (module_state fs))) = None
   \<and> fst (lifespan e (module_state fs)) = StartupFailed (NameError ''torch'')"
  by (simp add: load_model_def lifespan_def module_state_unbound) (simp add: module_state_def)

lemma load_model_bound:
  assumes "torch w = Some t"
  shows "load_model e w =
           (case construct_error e of
              None \<Rightarrow>
                (Inr (),
                 w\<lparr>model := Some (WhisperModel MODEL_SIZE
                                    (if cuda_is_available t then ''cuda'' else ''cpu'')
                                    (if cuda_is_available t then ''float16'' else ''int8'')
                                    ''./models''),
                   logger := logger w @
                     [(INFO, ''Loading Whisper model: '' @ MODEL_SIZE),
                      (INFO, ''Device: '' @ upper (if cuda_is_available t then ''cuda'' else ''cpu'')),
                      (INFO, ''Compute type: '' @ (if cuda_is_available t then ''float16'' else ''int8'')),
                      (INFO, ''Model loaded successfully'')]\<rparr>)
            | Some x \<Rightarrow>
                (Inl x,
                 w\<lparr>logger := logger w @
                     [(INFO, ''Loading Whisper model: '' @ MODEL_SIZE),
                      (INFO, ''Device: '' @ upper (if cuda_is_available t then ''cuda'' else ''cpu'')),
                      (INFO, ''Compute type: '' @ (if cuda_is_available t then ''float16'' else ''int8'')),
                      (ERROR, ''Failed to load model: '' @ str_of x)]\<rparr>))"
  using assms
  by (cases "construct_error e"; cases "cuda_is_available t")
     (simp_all add: load_model_def torch_cuda_is_available_def Let_def emit_def)

text \<open>
  Claim C8. Startup runs \<open>load_model\<close> before the application serves. If the constructor
  of the engine raises, startup does not reach the serving state, the global \<open>model\<close> is
  left as it was, no request is accepted, and (once line 37 has passed) the exception that
  ends startup is the constructor's own. If startup reaches the serving state, \<open>model\<close>
  holds an engine of the configured size; and a request is accepted only in the serving
  state.
\<close>

theorem startup_all_or_nothing:
  assumes "lifespan e w = (ph, w')"
  shows "(construct_error e = Some x \<longrightarrow>
            ph \<noteq> Serving \<and> model w' = model w \<and> accept ph e2 file w' = None
            \<and> (torch w \<noteq> None \<longrightarrow> ph = StartupFailed x))
       \<and> (ph = Serving \<longrightarrow>
            (\<exists>d c. model w' = Some (WhisperModel MODEL_SIZE d c ''./models'')))
       \<and> (accept ph e2 file w' \<noteq> None \<longrightarrow> ph = Serving)"
proof (cases "torch w")
  case None
  with assms show ?thesis
    by (auto simp: lifespan_def load_model_def torch_cuda_is_available_def accept_def)
next
  case (Some t)
  show ?thesis
  proof (cases "construct_error e")
    case None
    with assms Some show ?thesis
      by (auto simp: lifespan_def load_model_bound accept_def)
  next
    case (Some y)
    with assms \<open>torch w = Some t\<close> show ?thesis
      by (auto simp: lifespan_def load_model_bound accept_def)
  qed
qed

text \<open>
  Witness for C8, in a state where \<open>torch\<close> is bound: a constructor that raises, and one
  that succeeds.
\<close>

theorem startup_all_or_nothing_witness:
  "construct_error (stub_env\<lparr>construct_error := Some no_space\<rparr>) = Some no_space
   \<and> torch torch_world \<noteq> None
   \<and> fst (lifespan (stub_env\<lparr>construct_error := Some no_space\<rparr>) torch_world) = StartupFailed no_space
   \<and> model (snd (lifespan (stub_env\<lparr>construct_error := Some no_space\<rparr>) torch_world)) = None
   \<and> accept (fst (lifespan (stub_env\<lparr>construct_error := Some no_space\<rparr>) torch_world)) stub_env clip
        (snd (lifespan (stub_env\<lparr>construct_error := Some no_space\<rparr>) torch_world)) = None
   \<and> fst (lifespan stub_env torch_world) = Serving
   \<and> model (snd (lifespan stub_env torch_world))
        = Some (WhisperModel ''large-v3'' ''cpu'' ''int8'' ''./models'')
   \<and> accept (fst (lifespan stub_env torch_world)) stub_env clip (snd (lifespan stub_env torch_world)) \<noteq> None"
proof -
  let ?bad = "stub_env\<lparr>construct_error := Some no_space\<rparr>"
  have t: "torch torch_world = Some \<lparr>cuda_is_available = False\<rparr>" "model torch_world = None"
    by (simp_all add: torch_world_def module_state_def)
  have c: "construct_error ?bad = Some no_space" "construct_error stub_env = None"
    by (simp_all add: stub_env_def)
  have a: "lifespan ?bad torch_world = (fst (lifespan ?bad torch_world), snd (lifespan ?bad torch_world))"
    and b: "lifespan stub_env torch_world = (fst (lifespan stub_env torch_world), snd (lifespan stub_env torch_world))"
    by simp_all
  have good: "fst (lifespan stub_env torch_world) = Serving"
    by (simp add: lifespan_def load_model_bound [OF t(1)] c)
  have m: "model (snd (lifespan stub_env torch_world))
        = Some (WhisperModel ''large-v3'' ''cpu'' ''int8'' ''./models'')"
    by (simp add: lifespan_def load_model_bound [OF t(1)] c MODEL_SIZE_def)
  from startup_all_or_nothing [OF a, of no_space stub_env clip] c t
  have 1: "fst (lifespan ?bad torch_world) = StartupFailed no_space
     \<and> model (snd (lifespan ?bad torch_world)) = None
     \<and> accept (fst (lifespan ?bad torch_world)) stub_env clip (snd (lifespan ?bad torch_world)) = None"
    by (auto simp: accept_def)
  from startup_all_or_nothing [OF b, of no_space stub_env clip] good
  have 2: "\<exists>d c. model (snd (lifespan stub_env torch_world)) = Some (WhisperModel MODEL_SIZE d c ''./models'')"
    by simp
  have 3: "accept (fst (lifespan stub_env torch_world)) stub_env clip (snd (lifespan stub_env torch_world)) \<noteq> None"
    by (simp add: good accept_def)
  from 1 2 3 good m c t show ?thesis by (auto simp: accept_def)
qed

section \<open>Failures after staging, and repeated requests\<close>

lemma staging_failure_leaks:
  assumes ext: "lower (suffix_of (filename file)) \<in> ALLOWED_EXTENSIONS"
    and size: "length (content file) \<le> MAX_FILE_SIZE"
    and tmp: "NamedTemporaryFile e (files w) (lower (suffix_of (filename file))) = Inr p"
    and bad: "read_error e \<noteq> None \<or> write_error e \<noteq> None"
  shows "fst (transcribe_audio e file w) = Inl (UnboundLocalError ''temp_path'')"
    and "files (snd (transcribe_audio e file w)) p = Some []"
proof -
  let ?ext = "lower (suffix_of (filename file))"
  let ?l = "\<lparr>temp_file = Some p, temp_path = None\<rparr>"
  let ?w1 = "w\<lparr>files := (files w)(p \<mapsto> [])\<rparr>"
  obtain x where st: "staging e file ?ext w = (Inl x, ?l, ?w1)"
    using tmp bad
    by (cases "read_error e"; cases "write_error e") (auto simp: staging_def Let_def)
  have run: "transcribe_audio e file w = cleanup e ?l (on_exception x ?w1)"
    using ext size st by (simp add: transcribe_audio_def Let_def)
  show "fst (transcribe_audio e file w) = Inl (UnboundLocalError ''temp_path'')"
    by (simp add: run cleanup_def on_exception_def)
  show "files (snd (transcribe_audio e file w)) p = Some []"
    by (simp add: run cleanup_def on_exception_def emit_def)
qed

lemma inference_failure_handled:
  assumes ext: "lower (suffix_of (filename file)) \<in> ALLOWED_EXTENSIONS"
    and size: "length (content file) \<le> MAX_FILE_SIZE"
    and m: "model w = Some m"
    and tmp: "NamedTemporaryFile e (files w) (lower (suffix_of (filename file))) = Inr p"
    and ok: "read_error e = None" "write_error e = None" "close_error e = None"
    and tr: "transcribe_result e (Some (content file)) = Inl x
             \<or> (\<exists>i. transcribe_result e (Some (content file)) = Inr (Inl x, i))"
  shows "fst (transcribe_audio e file w) =
           Inl (HTTPException 500 (''Transcription failed: '' @ str_of x))"
    and "unlink_error e = None \<Longrightarrow> files (snd (transcribe_audio e file w)) = files w"
proof -
  let ?ext = "lower (suffix_of (filename file))"
  let ?l = "\<lparr>temp_file = Some p, temp_path = Some p\<rparr>"
  let ?w2 = "w\<lparr>files := (files w)(p \<mapsto> content file)\<rparr>"
  have fresh: "files w p = None"
    using tmp by (rule NamedTemporaryFile_fresh)
  have st: "staging e file ?ext w = (Inr p, ?l, ?w2)"
    using tmp ok by (simp add: staging_def Let_def)
  obtain w3 where inf: "inference e file p ?w2 = (Inl x, w3)" and w3: "files w3 = files ?w2"
    using m tr by (auto simp: inference_def Let_def emit_def)
  have run: "transcribe_audio e file w = cleanup e ?l (on_exception x w3)"
    using ext size st inf by (simp add: transcribe_audio_def Let_def)
  have ex: "files (snd (on_exception x w3)) p \<noteq> None"
    using w3 by (simp add: on_exception_def emit_def)
  show "fst (transcribe_audio e file w) =
           Inl (HTTPException 500 (''Transcription failed: '' @ str_of x))"
    using ex by (cases "unlink_error e") (simp_all add: run cleanup_def on_exception_def emit_def)
  show "files (snd (transcribe_audio e file w)) = files w" if "unlink_error e = None"
    using ex w3 fresh that by (auto simp: run cleanup_def on_exception_def emit_def)
qed


lemma clip_tmp:
  assumes "tempdir e = ''/tmp''" "candidates e = [''k3x9q2ab'']" "mkstemp_error e = None"
  shows "NamedTemporaryFile e (files stub_world) (lower (suffix_of (filename clip))) = Inr scratch_path"
  using assms
  by (simp add: NamedTemporaryFile_def clip_valid stub_world_fields scratch_path_def)

text \<open>
  Claim C1 (the code departs from it). A valid upload whose write to the scratch file fails
  (disk full): the file was created, \<open>temp_path\<close> is assigned only after the write, so
  the \<open>finally\<close> block raises \<open>UnboundLocalError\<close> instead of deleting: the scratch
  file, absent before the request, is still on disk after it.
\<close>

theorem scratch_file_left_behind:
  "files stub_world scratch_path = None
   \<and> fst (transcribe_audio (stub_env\<lparr>write_error := Some no_space\<rparr>) clip stub_world)
       = Inl (UnboundLocalError ''temp_path'')
   \<and> files (snd (transcribe_audio (stub_env\<lparr>write_error := Some no_space\<rparr>) clip stub_world))
       scratch_path = Some []"
proof -
  let ?e = "stub_env\<lparr>write_error := Some no_space\<rparr>"
  have tmp: "NamedTemporaryFile ?e (files stub_world) (lower (suffix_of (filename clip)))
      = Inr scratch_path"
    by (rule clip_tmp) (simp_all add: stub_env_def)
  have bad: "read_error ?e \<noteq> None \<or> write_error ?e \<noteq> None"
    by simp
  from staging_failure_leaks [OF clip_valid(2) clip_valid(3) tmp bad]
  show ?thesis by (simp add: stub_world_fields)
qed

text \<open>
  Claim C2 (the code departs from it). A valid upload whose read fails: the \<open>except\<close>
  block raises \<open>HTTPException 500\<close>, but the \<open>finally\<close> block then raises
  \<open>UnboundLocalError\<close>, which replaces it: what leaves the handler is not an
  \<open>HTTPException\<close>, and the client gets the framework's bare 500 without the
  "Transcription failed" detail.
\<close>

theorem raw_fault_escapes:
  "fst (transcribe_audio (stub_env\<lparr>read_error := Some (Raised ''[Errno 5] Input/output error'')\<rparr>)
          clip stub_world)
     = Inl (UnboundLocalError ''temp_path'')
   \<and> reply_of (fst (transcribe_audio
          (stub_env\<lparr>read_error := Some (Raised ''[Errno 5] Input/output error'')\<rparr>) clip stub_world))
     = InternalServerError
   \<and> reply_of (fst (transcribe_audio
          (stub_env\<lparr>read_error := Some (Raised ''[Errno 5] Input/output error'')\<rparr>) clip stub_world))
     \<noteq> Detail 500 (''Transcription failed: '' @ ''[Errno 5] Input/output error'')"
proof -
  let ?e = "stub_env\<lparr>read_error := Some (Raised ''[Errno 5] Input/output error'')\<rparr>"
  have tmp: "NamedTemporaryFile ?e (files stub_world) (lower (suffix_of (filename clip)))
      = Inr scratch_path"
    by (rule clip_tmp) (simp_all add: stub_env_def)
  have bad: "read_error ?e \<noteq> None \<or> write_error ?e \<noteq> None"
    by simp
  from staging_failure_leaks(1) [OF clip_valid(2) clip_valid(3) tmp bad]
  show ?thesis by simp
qed


lemma stub_response:
  assumes "model w = Some m" "files w = Map.empty" "tempdir e = ''/tmp''"
    "candidates e = [''k3x9q2ab'']" "mkstemp_error e = None"
    "read_error e = None" "write_error e = None" "close_error e = None"
    "transcribe_result e = transcribe_result stub_env"
  shows "fst (transcribe_audio e clip w) =
     Inr \<lparr>transcription = utext ''Hello world'', language_detected = ''en'',
          duration_seconds = 346 / 100\<rparr>
   \<and> files (snd (transcribe_audio e clip w)) =
         (if unlink_error e = None then Map.empty else [scratch_path \<mapsto> content clip])
   \<and> model (snd (transcribe_audio e clip w)) = Some m"
proof -
  have tmp: "NamedTemporaryFile e (files w) (lower (suffix_of (filename clip))) = Inr scratch_path"
    using assms by (simp add: NamedTemporaryFile_def clip_valid scratch_path_def)
  have tr: "transcribe_result e (Some (content clip)) =
      Inr (Inr [utext ''Hello'', utext ''world''],
           \<lparr>language = ''en'', duration = 7782220156096217 / 2251799813685248\<rparr>)"
    using assms by (simp add: stub_env_def)
  note run = transcribe_audio_success [OF clip_valid(2) clip_valid(3) assms(1) tmp assms(6,7,8) tr]
  from run(1) run(2) run(3) assms(1,2) show ?thesis
    by (simp add: stub_facts)
qed

lemma stub_env_fields:
  "tempdir stub_env = ''/tmp''" "candidates stub_env = [''k3x9q2ab'']"
  "mkstemp_error stub_env = None" "read_error stub_env = None" "write_error stub_env = None"
  "close_error stub_env = None" "unlink_error stub_env = None"
  by (simp_all add: stub_env_def)

text \<open>
  Claim C9 as stated fails. The same valid upload handled twice, both runs successful:
  the first scratch file is deleted before the second is created, and the name generator
  may give the same name again, so the two names are equal. And a run whose \<open>os.unlink\<close>
  fails is successful all the same and leaves its scratch file on disk.
\<close>

theorem same_upload_twice_counterexample:
  "NamedTemporaryFile stub_env (files stub_world) ''.wav'' = Inr scratch_path
   \<and> fst (transcribe_audio stub_env clip stub_world) =
       Inr \<lparr>transcription = utext ''Hello world'', language_detected = ''en'',
            duration_seconds = 346 / 100\<rparr>
   \<and> NamedTemporaryFile stub_env (files (snd (transcribe_audio stub_env clip stub_world))) ''.wav''
       = Inr scratch_path
   \<and> fst (transcribe_audio stub_env clip (snd (transcribe_audio stub_env clip stub_world))) =
       Inr \<lparr>transcription = utext ''Hello world'', language_detected = ''en'',
            duration_seconds = 346 / 100\<rparr>
   \<and> fst (transcribe_audio (stub_env\<lparr>unlink_error := Some (Raised ''[Errno 13] Permission denied'')\<rparr>)
            clip stub_world) =
       Inr \<lparr>transcription = utext ''Hello world'', language_detected = ''en'',
            duration_seconds = 346 / 100\<rparr>
   \<and> files (snd (transcribe_audio
                   (stub_env\<lparr>unlink_error := Some (Raised ''[Errno 13] Permission denied'')\<rparr>)
                   clip stub_world)) scratch_path = Some ''RIFF''"
proof -
  let ?w1 = "snd (transcribe_audio stub_env clip stub_world)"
  let ?e = "stub_env\<lparr>unlink_error := Some (Raised ''[Errno 13] Permission denied'')\<rparr>"
  have r1: "fst (transcribe_audio stub_env clip stub_world) =
       Inr \<lparr>transcription = utext ''Hello world'', language_detected = ''en'',
            duration_seconds = 346 / 100\<rparr>"
    and f1: "files ?w1 = Map.empty"
    and m1: "model ?w1 = Some (WhisperModel ''large-v3'' ''cpu'' ''int8'' ''./models'')"
    using stub_response [OF stub_world_fields(2) stub_world_fields(1) stub_env_fields(1-6) refl]
    by (simp_all add: stub_env_fields)
  have r2: "fst (transcribe_audio stub_env clip ?w1) =
       Inr \<lparr>transcription = utext ''Hello world'', language_detected = ''en'',
            duration_seconds = 346 / 100\<rparr>"
    using stub_response [OF m1 f1 stub_env_fields(1-6) refl] by simp
  have "fst (transcribe_audio ?e clip stub_world) =
       Inr \<lparr>transcription = utext ''Hello world'', language_detected = ''en'',
            duration_seconds = 346 / 100\<rparr>
     \<and> files (snd (transcribe_audio ?e clip stub_world)) =
         (if unlink_error ?e = None then Map.empty else [scratch_path \<mapsto> content clip])
     \<and> model (snd (transcribe_audio ?e clip stub_world))
          = Some (WhisperModel ''large-v3'' ''cpu'' ''int8'' ''./models'')"
    by (rule stub_response [OF stub_world_fields(2) stub_world_fields(1)])
       (simp_all add: stub_env_def)
  then have r3: "fst (transcribe_audio ?e clip stub_world) =
       Inr \<lparr>transcription = utext ''Hello world'', language_detected = ''en'',
            duration_seconds = 346 / 100\<rparr>"
    and f3: "files (snd (transcribe_audio ?e clip stub_world)) scratch_path = Some ''RIFF''"
    by (simp_all add: clip_def)
  from r1 r2 r3 f3 f1 stub_tmp show ?thesis
    by (simp add: stub_world_fields)
qed

text \<open>
  Claim C9, amended. A valid upload is handled twice in sequence with the model loaded; in
  both runs a scratch file can be created, reading, writing and closing raise nothing and
  the model returns its segments. Then both runs return responses, each built from its own
  run's model output; each scratch file is created under a name no file has at that
  moment; after a run whose deletion succeeds the files on disk are those before the run;
  and the global \<open>model\<close> is unchanged.
\<close>

theorem same_upload_twice:
  assumes ext: "lower (suffix_of (filename file)) \<in> ALLOWED_EXTENSIONS"
    and size: "length (content file) \<le> MAX_FILE_SIZE"
    and m: "model w = Some m"
    and tmp1: "NamedTemporaryFile e1 (files w) (lower (suffix_of (filename file))) = Inr p1"
    and ok1: "read_error e1 = None" "write_error e1 = None" "close_error e1 = None"
    and tr1: "transcribe_result e1 (Some (content file)) = Inr (Inr texts1, i1)"
    and tmp2: "NamedTemporaryFile e2 (files (snd (transcribe_audio e1 file w)))
                 (lower (suffix_of (filename file))) = Inr p2"
    and ok2: "read_error e2 = None" "write_error e2 = None" "close_error e2 = None"
    and tr2: "transcribe_result e2 (Some (content file)) = Inr (Inr texts2, i2)"
  shows "fst (transcribe_audio e1 file w) =
           Inr \<lparr>transcription = strip (join (utext '' '') texts1), language_detected = language i1,
                duration_seconds = round2 (duration i1)\<rparr>
       \<and> fst (transcribe_audio e2 file (snd (transcribe_audio e1 file w))) =
           Inr \<lparr>transcription = strip (join (utext '' '') texts2), language_detected = language i2,
                duration_seconds = round2 (duration i2)\<rparr>
       \<and> files w p1 = None
       \<and> files (snd (transcribe_audio e1 file w)) p2 = None
       \<and> (unlink_error e1 = None \<longrightarrow> files (snd (transcribe_audio e1 file w)) = files w)
       \<and> (unlink_error e2 = None \<longrightarrow>
            files (snd (transcribe_audio e2 file (snd (transcribe_audio e1 file w))))
              = files (snd (transcribe_audio e1 file w)))
       \<and> model (snd (transcribe_audio e2 file (snd (transcribe_audio e1 file w)))) = model w"
proof -
  let ?w1 = "snd (transcribe_audio e1 file w)"
  note r1 = transcribe_audio_success [OF ext size m tmp1 ok1 tr1]
  have m1: "model ?w1 = Some m"
    using r1(3) m by simp
  note r2 = transcribe_audio_success [OF ext size m1 tmp2 ok2 tr2]
  have "files w p1 = None"
    using tmp1 by (rule NamedTemporaryFile_fresh)
  moreover have "files ?w1 p2 = None"
    using tmp2 by (rule NamedTemporaryFile_fresh)
  ultimately show ?thesis
    using r1(1) r1(2) r1(3) r2(1) r2(2) r2(3) by simp
qed


text \<open>
  Witness for C9, amended: the stub twice on the same clip.
\<close>

theorem same_upload_twice_witness:
  "lower (suffix_of (filename clip)) \<in> ALLOWED_EXTENSIONS
   \<and> length (content clip) \<le> MAX_FILE_SIZE
   \<and> unlink_error stub_env = None
   \<and> fst (transcribe_audio stub_env clip stub_world) =
       Inr \<lparr>transcription = utext ''Hello world'', language_detected = ''en'',
            duration_seconds = 346 / 100\<rparr>
   \<and> fst (transcribe_audio stub_env clip (snd (transcribe_audio stub_env clip stub_world))) =
       Inr \<lparr>transcription = utext ''Hello world'', language_detected = ''en'',
            duration_seconds = 346 / 100\<rparr>
   \<and> files stub_world scratch_path = None
   \<and> files (snd (transcribe_audio stub_env clip stub_world)) = files stub_world
   \<and> files (snd (transcribe_audio stub_env clip (snd (transcribe_audio stub_env clip stub_world))))
       = files stub_world"
proof -
  let ?w1 = "snd (transcribe_audio stub_env clip stub_world)"
  let ?i = "\<lparr>language = ''en'', duration = 7782220156096217 / 2251799813685248\<rparr>"
  have tr: "transcribe_result stub_env (Some (content clip)) = Inr (Inr [utext ''Hello'', utext ''world''], ?i)"
    by (simp add: stub_env_def)
  have tmp1: "NamedTemporaryFile stub_env (files stub_world) (lower (suffix_of (filename clip)))
      = Inr scratch_path"
    by (rule clip_tmp) (simp_all add: stub_env_fields)
  have f1: "files ?w1 = Map.empty"
    using stub_response [OF stub_world_fields(2) stub_world_fields(1) stub_env_fields(1-6) refl]
    by (simp add: stub_env_fields)
  have tmp2: "NamedTemporaryFile stub_env (files ?w1) (lower (suffix_of (filename clip)))
      = Inr scratch_path"
    by (simp add: f1 clip_valid stub_tmp)
  from same_upload_twice [OF clip_valid(2) clip_valid(3) stub_world_fields(2) tmp1
      stub_env_fields(4) stub_env_fields(5) stub_env_fields(6) tr tmp2
      stub_env_fields(4) stub_env_fields(5) stub_env_fields(6) tr]
  show ?thesis
    by (simp add: stub_facts stub_env_fields clip_valid ALLOWED_EXTENSIONS_def)
qed

end
